theory Spec2Isabelle
  imports Main
begin

section \<open>The blog application: data model\<close>

text \<open>
  The three mapped classes of \<^verbatim>\<open>main.py\<close> (\<^verbatim>\<open>User\<close>, \<^verbatim>\<open>BlogPost\<close>, \<^verbatim>\<open>Comment\<close>) are
  records, one per table row. Record fields are global constants, so the column names
  carry the table's initial as a prefix (\<^verbatim>\<open>User.id\<close> is \<open>u_id\<close>, and so on).
  Primary keys are Python integers, hence \<open>int\<close>. The \<^verbatim>\<open>post_id\<close> of a URL is text that the
  database compares with the integer key; the handlers take it as the integer it denotes.
  A column declared without \<^verbatim>\<open>nullable=False\<close> may hold NULL and is an \<open>option\<close>.
\<close>

record User =
  u_id :: int
  u_email :: string
  u_password :: string
  u_name :: string

record BlogPost =
  p_id :: int
  p_author_id :: "int option"
  p_title :: string
  p_subtitle :: string
  p_date :: string
  p_body :: string
  p_img_url :: string

record Comment =
  c_id :: int
  c_author_id :: "int option"
  c_post_id :: "int option"
  c_text :: string

text \<open>The database: the rows of the three tables, in insertion order.\<close>

record store =
  users :: "User list"
  blog_posts :: "BlogPost list"
  comments :: "Comment list"

text \<open>
  What lives across requests: the database, the user id kept in the signed session
  cookie by \<^verbatim>\<open>login_user\<close>, and the messages queued by \<^verbatim>\<open>flash\<close>.
\<close>

record state =
  db :: store
  session_user_id :: "int option"
  flashes :: "string list"

text \<open>
  Every exception class that a handler of \<^verbatim>\<open>main.py\<close> raises, catches or lets through.
  \<open>HTTPException n\<close> is what \<^verbatim>\<open>abort(n)\<close> raises; \<open>SMTPException\<close> and \<open>OSError\<close> stand for
  the failures of the mail exchange other than a refused login.
\<close>

datatype exn =
    AttributeError
  | NoResultFound
  | MultipleResultsFound
  | IntegrityError
  | HTTPException nat
  | SMTPAuthenticationError
  | SMTPException
  | OSError

text \<open>
  Keyword arguments handed to a template, and what a view function returns.
  The keywords \<^verbatim>\<open>all_posts\<close>, \<^verbatim>\<open>post\<close>, \<^verbatim>\<open>form\<close>, \<^verbatim>\<open>h1\<close> and \<^verbatim>\<open>goal\<close> carry the suffix \<open>_kw\<close>, away from
  the handlers' local variables of the same names. A form object is passed as the list of
  its fields' data. \<open>returns_None\<close> is the value
  of a view function whose body ends without a \<^verbatim>\<open>return\<close>.
\<close>

datatype kwarg =
    all_posts_kw "BlogPost list"
  | post_kw BlogPost
  | form_kw "(string \<times> string) list"
  | h1_kw string
  | goal_kw string

datatype response =
    render_template string "kwarg list"
  | redirect string "(string \<times> int) list"
  | returns_None

type_synonym outcome = "exn + response"

text \<open>
  The current identity, as \<^verbatim>\<open>flask_login.current_user\<close> presents it: the loaded \<^verbatim>\<open>User\<close>
  row, or the anonymous object, which has no attribute \<^verbatim>\<open>id\<close>.
\<close>

datatype identity = AnonymousUser | LoggedIn User

section \<open>The environment of a request\<close>

text \<open>
  The request as the forms see it: whether the method submits a form, whether the CSRF
  token checks, and the posted fields.
\<close>

record request =
  is_submitted :: bool
  csrf_valid :: bool
  formdata :: "(string \<times> string) list"

text \<open>
  Everything the handlers use that is not code of this repository is a parameter:
  the field validators of the form library, the method name, the salt drawn for this
  request and the digest function of the password hasher, the formatted date of today,
  the outcome of the mail exchange for a given message (\<open>None\<close>: it completes;
  \<open>Some e\<close>: it raises \<open>e\<close>), and whether the database engine named by \<^verbatim>\<open>DATABASE_URL\<close>
  enforces the declared foreign keys.
\<close>

record env =
  DataRequired :: "string \<Rightarrow> bool"
  Email :: "string \<Rightarrow> bool"
  URL :: "string \<Rightarrow> bool"
  hash_method :: string
  salt :: string
  hash_internal :: "string \<Rightarrow> string \<Rightarrow> string \<Rightarrow> string"
  today :: string
  smtp_exchange :: "string \<Rightarrow> exn option"
  foreign_keys_enforced :: bool

section \<open>The password hasher\<close>

text \<open>
  Modelled from the spec: the code of \<^verbatim>\<open>generate_password_hash\<close> and \<^verbatim>\<open>check_password_hash\<close>,
  which \<^verbatim>\<open>main.py\<close> imports from \<^verbatim>\<open>werkzeug.security\<close>, is not in the repository. The spec
  (4.1) describes \<open>hash\<close> as a salted one-way digest of deterministic length and \<open>verify\<close> as
  its check against a plaintext. The hash string names the method and the salt in front
  of the digest, with \<open>$\<close> between the three parts; \<open>hash_internal e method salt password\<close>
  is the digest.
\<close>

definition generate_password_hash :: "env \<Rightarrow> string \<Rightarrow> string" where
  "generate_password_hash e password =
     hash_method e @ ''$'' @ salt e @ ''$'' @ hash_internal e (hash_method e) (salt e) password"

text \<open>
  Modelled from the spec: the three parts of a hash string, read back at its first two
  \<open>$\<close> signs; there is no result when the string has fewer than two.
\<close>

definition split_pwhash :: "string \<Rightarrow> (string \<times> string \<times> string) option" where
  "split_pwhash pwhash =
     (case dropWhile (\<lambda>c. c \<noteq> CHR ''$'') pwhash of
        [] \<Rightarrow> None
      | d # rest \<Rightarrow>
          (case dropWhile (\<lambda>c. c \<noteq> CHR ''$'') rest of
             [] \<Rightarrow> None
           | d' # hashval \<Rightarrow>
               Some (takeWhile (\<lambda>c. c \<noteq> CHR ''$'') pwhash,
                     takeWhile (\<lambda>c. c \<noteq> CHR ''$'') rest, hashval)))"

text \<open>
  Modelled from the spec: \<open>verify\<close> computes the digest of the plaintext with the method
  and the salt of the hash string and compares it with the digest of the hash string; a
  string that is not a hash string verifies nothing.
\<close>

definition check_password_hash :: "env \<Rightarrow> string \<Rightarrow> string \<Rightarrow> bool" where
  "check_password_hash e pwhash password =
     (case split_pwhash pwhash of
        None \<Rightarrow> False
      | Some (method, salt', hashval) \<Rightarrow> hash_internal e method salt' password = hashval)"

section \<open>The relational store\<close>

text \<open>
  \<^verbatim>\<open>Result.scalar_one()\<close> returns the only row of a result, and raises \<^verbatim>\<open>NoResultFound\<close>
  on none and \<^verbatim>\<open>MultipleResultsFound\<close> on several.
\<close>

fun scalar_one :: "'a list \<Rightarrow> exn + 'a" where
  "scalar_one [] = Inl NoResultFound"
| "scalar_one [x] = Inr x"
| "scalar_one (x # y # zs) = Inl MultipleResultsFound"

text \<open>
  The integer primary key given to a new row: one more than the largest key in the table,
  and 1 in an empty table.
\<close>

definition next_id :: "int list \<Rightarrow> int" where
  "next_id ids = fold max ids 0 + 1"

text \<open>
  \<^verbatim>\<open>db.session.add(User(...)); db.session.commit()\<close>. The commit raises \<^verbatim>\<open>IntegrityError\<close>
  when the \<^verbatim>\<open>unique=True\<close> column \<^verbatim>\<open>email\<close> already holds the value; nothing is written then.
\<close>

definition add_User :: "store \<Rightarrow> string \<Rightarrow> string \<Rightarrow> string \<Rightarrow> exn + (User \<times> store)" where
  "add_User d email password name =
     (if list_ex (\<lambda>u. u_email u = email) (users d) then Inl IntegrityError
      else let new_user = \<lparr>u_id = next_id (map u_id (users d)), u_email = email,
                             u_password = password, u_name = name\<rparr>
           in Inr (new_user, d\<lparr>users := users d @ [new_user]\<rparr>))"

text \<open>
  \<^verbatim>\<open>db.session.add(BlogPost(...)); db.session.commit()\<close>: the title is unique, and
  \<^verbatim>\<open>author_id\<close> is a foreign key into \<^verbatim>\<open>users\<close>.
\<close>

definition add_BlogPost ::
  "env \<Rightarrow> store \<Rightarrow> int \<Rightarrow> string \<Rightarrow> string \<Rightarrow> string \<Rightarrow> string \<Rightarrow> string \<Rightarrow> exn + store" where
  "add_BlogPost e d author_id title subtitle body img_url date =
     (if list_ex (\<lambda>p. p_title p = title) (blog_posts d) then Inl IntegrityError
      else if foreign_keys_enforced e \<and> \<not> list_ex (\<lambda>u. u_id u = author_id) (users d)
      then Inl IntegrityError
      else Inr (d\<lparr>blog_posts := blog_posts d @
                  [\<lparr>p_id = next_id (map p_id (blog_posts d)), p_author_id = Some author_id,
                    p_title = title, p_subtitle = subtitle, p_date = date, p_body = body,
                    p_img_url = img_url\<rparr>]\<rparr>))"

text \<open>
  \<^verbatim>\<open>db.session.add(Comment(...)); db.session.commit()\<close>. Both \<^verbatim>\<open>author_id\<close> and \<^verbatim>\<open>post_id\<close>
  are declared foreign keys; an engine that enforces them refuses a row whose target is
  missing, an engine that does not enforce them stores the row.
\<close>

definition add_Comment :: "env \<Rightarrow> store \<Rightarrow> int \<Rightarrow> int \<Rightarrow> string \<Rightarrow> exn + store" where
  "add_Comment e d author_id post_id text =
     (if foreign_keys_enforced e \<and>
         \<not> (list_ex (\<lambda>u. u_id u = author_id) (users d) \<and>
            list_ex (\<lambda>p. p_id p = post_id) (blog_posts d))
      then Inl IntegrityError
      else Inr (d\<lparr>comments := comments d @
                  [\<lparr>c_id = next_id (map c_id (comments d)), c_author_id = Some author_id,
                    c_post_id = Some post_id, c_text = text\<rparr>]\<rparr>))"

text \<open>
  The commit after the four attribute assignments of \<^verbatim>\<open>edit_post\<close>: an UPDATE of the row
  with the loaded post's primary key, refused when another row already has the new title.
\<close>

definition update_BlogPost ::
  "store \<Rightarrow> BlogPost \<Rightarrow> string \<Rightarrow> string \<Rightarrow> string \<Rightarrow> string \<Rightarrow> exn + store" where
  "update_BlogPost d p title subtitle img_url body =
     (if list_ex (\<lambda>q. p_id q \<noteq> p_id p \<and> p_title q = title) (blog_posts d)
      then Inl IntegrityError
      else Inr (d\<lparr>blog_posts :=
                  map (\<lambda>q. if p_id q = p_id p
                            then q\<lparr>p_title := title, p_subtitle := subtitle,
                                   p_img_url := img_url, p_body := body\<rparr>
                            else q) (blog_posts d)\<rparr>))"

text \<open>
  \<^verbatim>\<open>db.session.delete(post); db.session.commit()\<close>. The relationship \<^verbatim>\<open>BlogPost.comments\<close>
  has no delete cascade, so the unit of work first sets \<^verbatim>\<open>post_id\<close> of the post's comments
  to NULL and then deletes the post's row.
\<close>

definition delete_BlogPost :: "store \<Rightarrow> BlogPost \<Rightarrow> store" where
  "delete_BlogPost d p =
     d\<lparr>comments := map (\<lambda>c. if c_post_id c = Some (p_id p) then c\<lparr>c_post_id := None\<rparr> else c)
                       (comments d),
       blog_posts := filter (\<lambda>q. p_id q \<noteq> p_id p) (blog_posts d)\<rparr>"

section \<open>The session\<close>

text \<open>The \<^verbatim>\<open>user_loader\<close> callback of lines 85--90: only \<^verbatim>\<open>NoResultFound\<close> is caught.\<close>

definition load_user :: "state \<Rightarrow> int \<Rightarrow> exn + User option" where
  "load_user s user_id =
     (case scalar_one (filter (\<lambda>u. u_id u = user_id) (users (db s))) of
        Inr u \<Rightarrow> Inr (Some u)
      | Inl NoResultFound \<Rightarrow> Inr None
      | Inl x \<Rightarrow> Inl x)"

text \<open>
  \<^verbatim>\<open>current_user\<close>: the user the loader finds for the id in the session, and the anonymous
  object when the session holds no id or the loader returns \<^verbatim>\<open>None\<close>.
\<close>

definition current_user :: "state \<Rightarrow> exn + identity" where
  "current_user s =
     (case session_user_id s of
        None \<Rightarrow> Inr AnonymousUser
      | Some user_id \<Rightarrow>
          (case load_user s user_id of
             Inl x \<Rightarrow> Inl x
           | Inr None \<Rightarrow> Inr AnonymousUser
           | Inr (Some u) \<Rightarrow> Inr (LoggedIn u)))"

text \<open>Reading \<^verbatim>\<open>.id\<close> and \<^verbatim>\<open>.is_authenticated\<close> of the current identity.\<close>

fun id_of :: "identity \<Rightarrow> exn + int" where
  "id_of AnonymousUser = Inl AttributeError"
| "id_of (LoggedIn u) = Inr (u_id u)"

fun is_authenticated :: "identity \<Rightarrow> bool" where
  "is_authenticated AnonymousUser = False"
| "is_authenticated (LoggedIn u) = True"

definition login_user :: "User \<Rightarrow> state \<Rightarrow> state" where
  "login_user u s = s\<lparr>session_user_id := Some (u_id u)\<rparr>"


definition flash :: "string \<Rightarrow> state \<Rightarrow> state" where
  "flash message s = s\<lparr>flashes := flashes s @ [message]\<rparr>"

definition abort :: "nat \<Rightarrow> outcome" where
  "abort code = Inl (HTTPException code)"

section \<open>The forms of forms.py\<close>

text \<open>
  A form class is the table of its data fields, each with its validators, in the order of
  \<^verbatim>\<open>forms.py\<close>. The \<^verbatim>\<open>SubmitField\<close> of each class has no validator and no data a handler reads;
  it is left out. A form instance is the list of its fields' data.
\<close>

type_synonym form_class = "(string \<times> (string \<Rightarrow> bool) list) list"

definition Length_min :: "nat \<Rightarrow> string \<Rightarrow> bool" where
  "Length_min n field_data = (n \<le> length field_data)"

definition CreatePostForm :: "env \<Rightarrow> form_class" where
  "CreatePostForm e =
     [(''title'', [DataRequired e]),
      (''subtitle'', [DataRequired e]),
      (''img_url'', [DataRequired e, URL e]),
      (''body'', [DataRequired e])]"

definition RegisterForm :: "env \<Rightarrow> form_class" where
  "RegisterForm e =
     [(''email'', [DataRequired e, Email e]),
      (''password'', [DataRequired e, Length_min 8]),
      (''name'', [DataRequired e])]"

definition LoginForm :: "env \<Rightarrow> form_class" where
  "LoginForm e =
     [(''email'', [DataRequired e, Email e]),
      (''password'', [DataRequired e, Length_min 8])]"

definition CreateContactForm :: "env \<Rightarrow> form_class" where
  "CreateContactForm e =
     [(''name'', [DataRequired e]),
      (''email'', [DataRequired e, Email e]),
      (''phone'', [DataRequired e]),
      (''message'', [DataRequired e])]"

definition CommentForm :: "env \<Rightarrow> form_class" where
  "CommentForm e = [(''comment'', [DataRequired e])]"

text \<open>
  Binding a form to the request: on a submitting request a field takes the posted value
  when the field was posted, and otherwise keeps the value given to the constructor by
  keyword (the empty string when none was given; a missing value and an empty one both
  fail \<^verbatim>\<open>DataRequired\<close>).
\<close>

definition lookup :: "(string \<times> string) list \<Rightarrow> string \<Rightarrow> string" where
  "lookup kvs name = (case map_of kvs name of Some v \<Rightarrow> v | None \<Rightarrow> [])"

definition make_form :: "form_class \<Rightarrow> request \<Rightarrow> (string \<times> string) list \<Rightarrow> (string \<times> string) list" where
  "make_form cls r kwargs =
     map (\<lambda>(name, validators).
            (name, if is_submitted r
                   then (case map_of (formdata r) name of
                           Some v \<Rightarrow> v
                         | None \<Rightarrow> lookup kwargs name)
                   else lookup kwargs name)) cls"

definition validate :: "form_class \<Rightarrow> (string \<times> string) list \<Rightarrow> bool" where
  "validate cls f = list_all (\<lambda>(name, validators). list_all (\<lambda>v. v (lookup f name)) validators) cls"

definition validate_on_submit :: "form_class \<Rightarrow> request \<Rightarrow> (string \<times> string) list \<Rightarrow> bool" where
  "validate_on_submit cls r f = (is_submitted r \<and> csrf_valid r \<and> validate cls f)"

section \<open>The handlers of main.py\<close>

text \<open>
  A handler takes the environment, the request, its URL arguments and the state, and
  returns what the view function returns or raises, with the state it leaves behind.
\<close>

text \<open>Lines 71--82. The \<^verbatim>\<open>try\<close> spans the call of the wrapped function as well.\<close>

definition admin_only ::
  "('a \<Rightarrow> state \<Rightarrow> outcome \<times> state) \<Rightarrow> 'a \<Rightarrow> state \<Rightarrow> outcome \<times> state" where
  "admin_only function args s =
     (case current_user s of
        Inl x \<Rightarrow> (if x = AttributeError then (abort 403, s) else (Inl x, s))
      | Inr cu \<Rightarrow>
          (case id_of cu of
             Inl x \<Rightarrow> (if x = AttributeError then (abort 403, s) else (Inl x, s))
           | Inr i \<Rightarrow>
               if i = 1
               then (case function args s of
                       (Inl x, s') \<Rightarrow> (if x = AttributeError then (abort 403, s') else (Inl x, s'))
                     | (Inr v, s') \<Rightarrow> (Inr v, s'))
               else (abort 403, s)))"


definition register :: "env \<Rightarrow> request \<Rightarrow> state \<Rightarrow> outcome \<times> state" where
  "register e r s =
     (let form = make_form (RegisterForm e) r []
      in if validate_on_submit (RegisterForm e) r form
         then (let email = lookup form ''email'';
                   password = generate_password_hash e (lookup form ''password'');
                   name = lookup form ''name''
               in case add_User (db s) email password name of
                    Inl x \<Rightarrow>
                      (if x = IntegrityError
                       then (Inr (redirect ''register'' []),
                             flash ''The Email you have entered has been taken, try to use a different Email!'' s)
                       else (Inl x, s))
                  | Inr (new_user, d) \<Rightarrow>
                      (Inr (redirect ''get_all_posts'' []), login_user new_user (s\<lparr>db := d\<rparr>)))
         else (Inr (render_template ''register.html'' [form_kw form]), s))"

definition login :: "env \<Rightarrow> request \<Rightarrow> state \<Rightarrow> outcome \<times> state" where
  "login e r s =
     (let form = make_form (LoginForm e) r []
      in if validate_on_submit (LoginForm e) r form
         then (let email = lookup form ''email'';
                   password = lookup form ''password''
               in case scalar_one (filter (\<lambda>u. u_email u = email) (users (db s))) of
                    Inl x \<Rightarrow>
                      (if x = NoResultFound
                       then (Inr (redirect ''login'' []),
                             flash ''Sorry, Wrong Email, Try to use a different Email!'' s)
                       else (Inl x, s))
                  | Inr user \<Rightarrow>
                      if check_password_hash e (u_password user) password
                      then (Inr (redirect ''get_all_posts'' []), login_user user s)
                      else (Inr (redirect ''login'' []),
                            flash ''Sorry, Wrong Password, Try to use a different Password!'' s))
         else (Inr (render_template ''login.html'' [form_kw form]), s))"


text \<open>
  Lines 152--167. The comment is added and committed before the post is looked up.
\<close>

definition show_post :: "env \<Rightarrow> request \<Rightarrow> int \<Rightarrow> state \<Rightarrow> outcome \<times> state" where
  "show_post e r post_id s =
     (let form = make_form (CommentForm e) r [];
          fetch = (\<lambda>s'. case scalar_one (filter (\<lambda>p. p_id p = post_id) (blog_posts (db s'))) of
                          Inl x \<Rightarrow> (Inl x, s')
                        | Inr requested_post \<Rightarrow>
                            (Inr (render_template ''post.html'' [post_kw requested_post, form_kw form]), s'))
      in if validate_on_submit (CommentForm e) r form
         then (case current_user s of
                 Inl x \<Rightarrow> (Inl x, s)
               | Inr cu \<Rightarrow>
                   if is_authenticated cu
                   then (case id_of cu of
                           Inl x \<Rightarrow> (Inl x, s)
                         | Inr author_id \<Rightarrow>
                             (case add_Comment e (db s) author_id post_id (lookup form ''comment'') of
                                Inl x \<Rightarrow> (Inl x, s)
                              | Inr d \<Rightarrow> fetch (s\<lparr>db := d\<rparr>)))
                   else (Inr (redirect ''login'' []),
                         flash ''Please Login or Register to Submit your Comment!'' s))
         else fetch s)"


text \<open>The message of lines 192--193; \<open>CHR 0x0A\<close> is the line feed.\<close>

definition contact_message :: "string \<Rightarrow> string \<Rightarrow> string \<Rightarrow> string \<Rightarrow> string" where
  "contact_message name email phone message =
     ''subject:New Message'' @ [CHR 0x0A, CHR 0x0A] @ ''Name: '' @ name @ [CHR 0x0A] @
     ''Email: '' @ email @ [CHR 0x0A] @ ''Phone: '' @ phone @ [CHR 0x0A] @
     ''Message: '' @ message"

text \<open>
  Lines 175--198. The \<^verbatim>\<open>try\<close> has one \<^verbatim>\<open>except\<close> clause, for \<^verbatim>\<open>SMTPAuthenticationError\<close>, and
  nothing follows it inside the \<^verbatim>\<open>if\<close> branch.
\<close>

definition contact :: "env \<Rightarrow> request \<Rightarrow> state \<Rightarrow> outcome \<times> state" where
  "contact e r s =
     (let form = make_form (CreateContactForm e) r []
      in if validate_on_submit (CreateContactForm e) r form
         then (let name = lookup form ''name'';
                   email = lookup form ''email'';
                   phone = lookup form ''phone'';
                   message = lookup form ''message''
               in case smtp_exchange e (contact_message name email phone message) of
                    None \<Rightarrow> (Inr returns_None, s)
                  | Some x \<Rightarrow>
                      if x = SMTPAuthenticationError
                      then (Inr (render_template ''contact.html''
                                   [form_kw form, h1_kw ''Successfully Send Your Message'']), s)
                      else (Inl x, s))
         else (Inr (render_template ''contact.html'' [form_kw form, h1_kw ''Contact Me'']), s))"

definition add_new_post :: "env \<Rightarrow> request \<Rightarrow> unit \<Rightarrow> state \<Rightarrow> outcome \<times> state" where
  "add_new_post e r args s =
     (let form = make_form (CreatePostForm e) r []
      in if validate_on_submit (CreatePostForm e) r form
         then (case current_user s of
                 Inl x \<Rightarrow> (Inl x, s)
               | Inr cu \<Rightarrow>
                   (case id_of cu of
                      Inl x \<Rightarrow> (Inl x, s)
                    | Inr author_id \<Rightarrow>
                        (case add_BlogPost e (db s) author_id (lookup form ''title'')
                                (lookup form ''subtitle'') (lookup form ''body'')
                                (lookup form ''img_url'') (today e) of
                           Inl x \<Rightarrow> (Inl x, s)
                         | Inr d \<Rightarrow> (Inr (redirect ''get_all_posts'' []), s\<lparr>db := d\<rparr>))))
         else (Inr (render_template ''make-post.html'' [form_kw form]), s))"

definition edit_post :: "env \<Rightarrow> request \<Rightarrow> int \<Rightarrow> state \<Rightarrow> outcome \<times> state" where
  "edit_post e r post_id s =
     (case scalar_one (filter (\<lambda>p. p_id p = post_id) (blog_posts (db s))) of
        Inl x \<Rightarrow> (Inl x, s)
      | Inr post \<Rightarrow>
          (let edit_form = make_form (CreatePostForm e) r
                             [(''title'', p_title post), (''subtitle'', p_subtitle post),
                              (''img_url'', p_img_url post), (''body'', p_body post)]
           in if validate_on_submit (CreatePostForm e) r edit_form
              then (case update_BlogPost (db s) post (lookup edit_form ''title'')
                           (lookup edit_form ''subtitle'') (lookup edit_form ''img_url'')
                           (lookup edit_form ''body'') of
                      Inl x \<Rightarrow> (Inl x, s)
                    | Inr d \<Rightarrow>
                        (Inr (redirect ''show_post'' [(''post_id'', p_id post)]), s\<lparr>db := d\<rparr>))
              else (Inr (render_template ''make-post.html'' [form_kw edit_form, goal_kw ''edit'']),
                    s)))"

definition delete_post :: "int \<Rightarrow> state \<Rightarrow> outcome \<times> state" where
  "delete_post post_id s =
     (case scalar_one (filter (\<lambda>p. p_id p = post_id) (blog_posts (db s))) of
        Inl x \<Rightarrow> (Inl x, s)
      | Inr post_to_delete \<Rightarrow>
          (Inr (redirect ''get_all_posts'' []), s\<lparr>db := delete_BlogPost (db s) post_to_delete\<rparr>))"

section \<open>From a handler's outcome to the response\<close>

text \<open>
  The application registers no error handler and runs with \<^verbatim>\<open>debug=False\<close> (line 254).
  The framework then answers an \<^verbatim>\<open>abort(n)\<close> with status \<open>n\<close>, any other exception that leaves
  the view function with 500, and a view function that returns \<^verbatim>\<open>None\<close> with 500 as well
  (it is not a valid response).
\<close>

fun status_code :: "outcome \<Rightarrow> nat" where
  "status_code (Inl (HTTPException code)) = code"
| "status_code (Inl x) = 500"
| "status_code (Inr (render_template template kwargs)) = 200"
| "status_code (Inr (redirect endpoint vals)) = 302"
| "status_code (Inr returns_None) = 500"

section \<open>Sample data for the worked instances\<close>

text \<open>
  A small database (the administrator, one more user, two posts, one comment), an
  environment with simple stand-ins for the library functions, and two kinds of request.
  The stand-ins for the validators are stricter than accept-all, and every field value
  posted in the worked instances is one the library's validators accept as well: the
  emails and URLs are well-formed, the passwords have at least eight characters where a
  form is meant to validate.
\<close>

definition sample_DataRequired :: "string \<Rightarrow> bool" where
  "sample_DataRequired d =
     list_ex (\<lambda>c. c \<notin> set [CHR '' '', CHR 0x09, CHR 0x0A, CHR 0x0B, CHR 0x0C, CHR 0x0D]) d"

definition sample_Email :: "string \<Rightarrow> bool" where
  "sample_Email d =
     (takeWhile (\<lambda>c. c \<noteq> CHR ''@'') d \<noteq> [] \<and>
      CHR ''.'' \<in> set (dropWhile (\<lambda>c. c \<noteq> CHR ''@'') d))"

definition sample_URL :: "string \<Rightarrow> bool" where
  "sample_URL d = ((take 7 d = ''http://'' \<or> take 8 d = ''https://'') \<and> CHR ''.'' \<in> set d)"

definition sample_digest :: "string \<Rightarrow> string \<Rightarrow> string \<Rightarrow> string" where
  "sample_digest method salt' password = take 8 (rev password @ salt' @ ''00000000'')"

definition sample_env :: env where
  "sample_env =
     \<lparr>DataRequired = sample_DataRequired, Email = sample_Email, URL = sample_URL,
      hash_method = ''pbkdf2:sha256'', salt = ''s3'', hash_internal = sample_digest,
      today = ''November 03, 2026'', smtp_exchange = (\<lambda>m. None),
      foreign_keys_enforced = False\<rparr>"

definition sample_store :: store where
  "sample_store =
     \<lparr>users = [\<lparr>u_id = 1, u_email = ''a@x.com'', u_password = ''pbkdf2:sha256$s1$hgfedcba'', u_name = ''A''\<rparr>,
               \<lparr>u_id = 2, u_email = ''b@x.com'', u_password = ''pbkdf2:sha256$s2$87654321'', u_name = ''B''\<rparr>],
      blog_posts = [\<lparr>p_id = 1, p_author_id = Some 1, p_title = ''First'', p_subtitle = ''one'',
                     p_date = ''May 01, 2024'', p_body = ''text'', p_img_url = ''https://x.com/1.png''\<rparr>,
                    \<lparr>p_id = 2, p_author_id = Some 1, p_title = ''Second'', p_subtitle = ''two'',
                     p_date = ''May 02, 2024'', p_body = ''more'', p_img_url = ''https://x.com/2.png''\<rparr>],
      comments = [\<lparr>c_id = 1, c_author_id = Some 2, c_post_id = Some 1, c_text = ''nice''\<rparr>]\<rparr>"

definition sample_state :: "int option \<Rightarrow> state" where
  "sample_state uid = \<lparr>db = sample_store, session_user_id = uid, flashes = []\<rparr>"

definition GET :: request where
  "GET = \<lparr>is_submitted = False, csrf_valid = False, formdata = []\<rparr>"

definition POST :: "(string \<times> string) list \<Rightarrow> request" where
  "POST fd = \<lparr>is_submitted = True, csrf_valid = True, formdata = fd\<rparr>"

section \<open>The referential invariant of the data model\<close>

text \<open>
  The invariant the data model asks of the comments: every comment's \<^verbatim>\<open>post_id\<close> is the id
  of a stored post and its \<^verbatim>\<open>author_id\<close> the id of a stored user.
\<close>

definition comments_reference_rows :: "store \<Rightarrow> bool" where
  "comments_reference_rows d =
     list_all (\<lambda>c. list_ex (\<lambda>p. c_post_id c = Some (p_id p)) (blog_posts d) \<and>
                    list_ex (\<lambda>u. c_author_id c = Some (u_id u)) (users d))
              (comments d)"

section \<open>The identities of the sample sessions\<close>

lemmas sample_defs =
  sample_env_def sample_DataRequired_def sample_Email_def sample_URL_def sample_digest_def

lemma current_user_sample_None: "current_user (sample_state None) = Inr AnonymousUser"
  by (simp add: current_user_def sample_state_def)

lemma current_user_sample_1:
  "current_user (sample_state (Some 1)) =
     Inr (LoggedIn \<lparr>u_id = 1, u_email = ''a@x.com'', u_password = ''pbkdf2:sha256$s1$hgfedcba'', u_name = ''A''\<rparr>)"
  by (simp add: current_user_def load_user_def sample_state_def sample_store_def)

lemma current_user_sample_2:
  "current_user (sample_state (Some 2)) =
     Inr (LoggedIn \<lparr>u_id = 2, u_email = ''b@x.com'', u_password = ''pbkdf2:sha256$s2$87654321'', u_name = ''B''\<rparr>)"
  by (simp add: current_user_def load_user_def sample_state_def sample_store_def)

section \<open>The authorization guard\<close>

lemma admin_only_anonymous:
  "current_user s = Inr AnonymousUser \<Longrightarrow> admin_only function args s = (abort 403, s)"
  by (simp add: admin_only_def)

lemma admin_only_not_admin:
  "current_user s = Inr (LoggedIn u) \<Longrightarrow> u_id u \<noteq> 1 \<Longrightarrow>
   admin_only function args s = (abort 403, s)"
  by (simp add: admin_only_def)

text \<open>
  For the administrator the wrapper hands back what the wrapped function does, unless
  that is an \<^verbatim>\<open>AttributeError\<close>, which the wrapper's \<^verbatim>\<open>except\<close> clause would catch.
\<close>

lemma admin_only_admin:
  "current_user s = Inr (LoggedIn u) \<Longrightarrow> u_id u = 1 \<Longrightarrow>
   fst (function args s) \<noteq> Inl AttributeError \<Longrightarrow>
   admin_only function args s = function args s"
  by (cases "function args s") (auto simp: admin_only_def split: sum.splits)

lemma scalar_one_no_AttributeError: "scalar_one xs \<noteq> Inl AttributeError"
  by (cases xs rule: scalar_one.cases) simp_all

lemma add_BlogPost_no_AttributeError:
  "add_BlogPost e d author_id title subtitle body img_url date \<noteq> Inl AttributeError"
  by (simp add: add_BlogPost_def)

lemma update_BlogPost_no_AttributeError:
  "update_BlogPost d p title subtitle img_url body \<noteq> Inl AttributeError"
  by (simp add: update_BlogPost_def)

text \<open>None of the three guarded handlers raises \<^verbatim>\<open>AttributeError\<close> for a logged-in user.\<close>

lemma add_new_post_no_AttributeError:
  "current_user s = Inr (LoggedIn u) \<Longrightarrow> fst (add_new_post e r args s) \<noteq> Inl AttributeError"
  using add_BlogPost_no_AttributeError
  by (auto simp: add_new_post_def Let_def split: sum.splits)

lemma edit_post_no_AttributeError: "fst (edit_post e r post_id s) \<noteq> Inl AttributeError"
  using scalar_one_no_AttributeError update_BlogPost_no_AttributeError
  by (auto simp: edit_post_def Let_def split: sum.splits)

lemma delete_post_no_AttributeError: "fst (delete_post post_id s) \<noteq> Inl AttributeError"
  using scalar_one_no_AttributeError
  by (auto simp: delete_post_def split: sum.splits)

text \<open>
  C1. Behind \<^verbatim>\<open>admin_only\<close>, a request whose current identity is anonymous, or a user whose
  id is not 1, gets \<^verbatim>\<open>abort(403)\<close> whatever the wrapped function is (so the function has no
  part in the result, and the state is untouched), and the response status is 403. For
  the user with id 1 each of the three guarded handlers (\<^verbatim>\<open>add_new_post\<close>, \<^verbatim>\<open>edit_post\<close>,
  \<^verbatim>\<open>delete_post\<close>) runs on the original arguments and its result comes back unchanged.
  The rejection of an anonymous requester and that of a non-admin user are the same value.
\<close>

theorem admin_only_guard:
  "(current_user s = Inr AnonymousUser \<or> (\<exists>u. current_user s = Inr (LoggedIn u) \<and> u_id u \<noteq> 1)
      \<longrightarrow> admin_only function args s = (abort 403, s) \<and> status_code (abort 403) = 403)
   \<and> ((\<exists>u. current_user s = Inr (LoggedIn u) \<and> u_id u = 1)
      \<longrightarrow> admin_only (add_new_post e r) () s = add_new_post e r () s
        \<and> admin_only (edit_post e r) post_id s = edit_post e r post_id s
        \<and> admin_only delete_post post_id s = delete_post post_id s)
   \<and> (current_user s_anon = Inr AnonymousUser \<and>
       (\<exists>u. current_user s_user = Inr (LoggedIn u) \<and> u_id u \<noteq> 1)
      \<longrightarrow> fst (admin_only function args s_anon) = fst (admin_only function args s_user))"
proof (intro conjI impI)
  assume "current_user s = Inr AnonymousUser \<or>
          (\<exists>u. current_user s = Inr (LoggedIn u) \<and> u_id u \<noteq> 1)"
  then show "admin_only function args s = (abort 403, s)"
    by (auto simp: admin_only_anonymous admin_only_not_admin)
next
  show "status_code (abort 403) = 403"
    by (simp add: abort_def)
next
  assume "\<exists>u. current_user s = Inr (LoggedIn u) \<and> u_id u = 1"
  then obtain u where u: "current_user s = Inr (LoggedIn u)" "u_id u = 1"
    by blast
  show "admin_only (add_new_post e r) () s = add_new_post e r () s"
    using u by (rule admin_only_admin) (rule add_new_post_no_AttributeError [OF u(1)])
  show "admin_only (edit_post e r) post_id s = edit_post e r post_id s"
    using u by (rule admin_only_admin) (rule edit_post_no_AttributeError)
  show "admin_only delete_post post_id s = delete_post post_id s"
    using u by (rule admin_only_admin) (rule delete_post_no_AttributeError)
next
  assume "current_user s_anon = Inr AnonymousUser \<and>
          (\<exists>u. current_user s_user = Inr (LoggedIn u) \<and> u_id u \<noteq> 1)"
  then show "fst (admin_only function args s_anon) = fst (admin_only function args s_user)"
    by (auto simp: admin_only_anonymous admin_only_not_admin)
qed

theorem admin_only_guard_witness:
  "admin_only delete_post 2 (sample_state None) = (abort 403, sample_state None)
   \<and> admin_only delete_post 2 (sample_state (Some 2)) = (abort 403, sample_state (Some 2))
   \<and> admin_only (add_new_post sample_env GET) () (sample_state (Some 1)) =
       add_new_post sample_env GET () (sample_state (Some 1))
   \<and> admin_only (edit_post sample_env GET) 2 (sample_state (Some 1)) =
       edit_post sample_env GET 2 (sample_state (Some 1))
   \<and> admin_only delete_post 2 (sample_state (Some 1)) = delete_post 2 (sample_state (Some 1))
   \<and> fst (admin_only delete_post 2 (sample_state None)) =
       fst (admin_only delete_post 2 (sample_state (Some 2)))"
proof -
  let ?anon = "sample_state None" and ?user = "sample_state (Some 2)"
    and ?admin = "sample_state (Some 1)"
  have user: "\<exists>u. current_user ?user = Inr (LoggedIn u) \<and> u_id u \<noteq> 1"
    by (rule exI, rule conjI, rule current_user_sample_2) simp
  have admin: "\<exists>u. current_user ?admin = Inr (LoggedIn u) \<and> u_id u = 1"
    by (rule exI, rule conjI, rule current_user_sample_1) simp
  note guard = admin_only_guard [of _ delete_post 2 sample_env GET 2 ?anon ?user]
  have "admin_only delete_post 2 ?anon = (abort 403, ?anon)"
    using guard [of ?anon] current_user_sample_None by blast
  moreover have "admin_only delete_post 2 ?user = (abort 403, ?user)"
    using guard [of ?user] user by blast
  moreover have "admin_only (add_new_post sample_env GET) () ?admin =
                   add_new_post sample_env GET () ?admin
                 \<and> admin_only (edit_post sample_env GET) 2 ?admin = edit_post sample_env GET 2 ?admin
                 \<and> admin_only delete_post 2 ?admin = delete_post 2 ?admin"
    using guard [of ?admin] admin by blast
  moreover have "fst (admin_only delete_post 2 ?anon) = fst (admin_only delete_post 2 ?user)"
    using guard [of ?anon] current_user_sample_None user by blast
  ultimately show ?thesis
    by blast
qed

section \<open>Viewing a post and commenting\<close>

lemma filter_no_match: "\<not> list_ex P xs \<Longrightarrow> filter P xs = []"
  by (induction xs) auto

lemma current_user_flash [simp]: "current_user (flash message s) = current_user s"
  by (simp add: current_user_def load_user_def flash_def split: option.splits)

text \<open>
  C2. The invariant holds in the sample database. User 2, logged in, submits a valid
  comment to \<^verbatim>\<open>/post/999\<close>, where no post has id 999, on an engine that does not enforce
  foreign keys. \<^verbatim>\<open>show_post\<close> commits the comment with \<^verbatim>\<open>post_id\<close> 999 and only then looks
  the post up and raises \<^verbatim>\<open>NoResultFound\<close>: the committed state breaks the invariant.
\<close>

theorem show_post_commits_dangling_comment:
  "comments_reference_rows (db (sample_state (Some 2)))
   \<and> show_post sample_env (POST [(''comment'', ''hello'')]) 999 (sample_state (Some 2)) =
       (Inl NoResultFound,
        (sample_state (Some 2))
          \<lparr>db := sample_store
             \<lparr>comments := comments sample_store @
                [\<lparr>c_id = 2, c_author_id = Some 2, c_post_id = Some 999, c_text = ''hello''\<rparr>]\<rparr>\<rparr>)
   \<and> map p_id (blog_posts sample_store) = [1, 2]
   \<and> \<not> comments_reference_rows
         (db (snd (show_post sample_env (POST [(''comment'', ''hello'')]) 999
                     (sample_state (Some 2)))))"
proof -
  have sp: "show_post sample_env (POST [(''comment'', ''hello'')]) 999 (sample_state (Some 2)) =
       (Inl NoResultFound,
        (sample_state (Some 2))
          \<lparr>db := sample_store
             \<lparr>comments := comments sample_store @
                [\<lparr>c_id = 2, c_author_id = Some 2, c_post_id = Some 999, c_text = ''hello''\<rparr>]\<rparr>\<rparr>)"
    by (simp add: show_post_def current_user_sample_2 Let_def make_form_def CommentForm_def
        validate_on_submit_def validate_def lookup_def POST_def sample_defs add_Comment_def
        next_id_def)
       (simp add: sample_state_def sample_store_def)
  have "comments_reference_rows (db (sample_state (Some 2)))"
    by (simp add: comments_reference_rows_def sample_state_def sample_store_def)
  moreover have "map p_id (blog_posts sample_store) = [1, 2]"
    by (simp add: sample_store_def)
  moreover have "\<not> comments_reference_rows
         (db (snd (show_post sample_env (POST [(''comment'', ''hello'')]) 999
                     (sample_state (Some 2)))))"
    unfolding sp by (simp add: comments_reference_rows_def sample_state_def sample_store_def)
  ultimately show ?thesis
    using sp by blast
qed

text \<open>
  The same in general: whenever a logged-in user submits a valid comment to an id that no
  post has and foreign keys are not enforced, the comment row is committed and the
  request then fails with \<^verbatim>\<open>NoResultFound\<close>.
\<close>

lemma show_post_missing_post:
  assumes "validate_on_submit (CommentForm e) r (make_form (CommentForm e) r [])"
    and "current_user s = Inr (LoggedIn u)"
    and "\<not> foreign_keys_enforced e"
    and "\<not> list_ex (\<lambda>p. p_id p = post_id) (blog_posts (db s))"
  shows "show_post e r post_id s =
           (Inl NoResultFound,
            s\<lparr>db := (db s)\<lparr>comments := comments (db s) @
                 [\<lparr>c_id = next_id (map c_id (comments (db s))), c_author_id = Some (u_id u),
                   c_post_id = Some post_id,
                   c_text = lookup (make_form (CommentForm e) r []) ''comment''\<rparr>]\<rparr>\<rparr>)"
proof -
  have "filter (\<lambda>p. p_id p = post_id) (blog_posts (db s)) = []"
    using assms(4) by (rule filter_no_match)
  then show ?thesis
    using assms(1-3) by (simp add: show_post_def Let_def add_Comment_def)
qed

text \<open>
  On an engine that enforces the declared foreign keys the same commit is refused: the
  request fails with \<^verbatim>\<open>IntegrityError\<close> and nothing is written.
\<close>

lemma show_post_foreign_keys_enforced:
  assumes "validate_on_submit (CommentForm e) r (make_form (CommentForm e) r [])"
    and "current_user s = Inr (LoggedIn u)"
    and "foreign_keys_enforced e"
    and "\<not> list_ex (\<lambda>p. p_id p = post_id) (blog_posts (db s))"
  shows "show_post e r post_id s = (Inl IntegrityError, s)"
  using assms by (simp add: show_post_def Let_def add_Comment_def)

text \<open>
  Deleting a post keeps its comments and sets their \<^verbatim>\<open>post_id\<close> to NULL.
\<close>

lemma delete_post_sample:
  "delete_post 1 (sample_state (Some 1)) =
     (Inr (redirect ''get_all_posts'' []),
      (sample_state (Some 1))
        \<lparr>db := sample_store
           \<lparr>comments := [\<lparr>c_id = 1, c_author_id = Some 2, c_post_id = None, c_text = ''nice''\<rparr>],
            blog_posts := [\<lparr>p_id = 2, p_author_id = Some 1, p_title = ''Second'',
                            p_subtitle = ''two'', p_date = ''May 02, 2024'', p_body = ''more'',
                            p_img_url = ''https://x.com/2.png''\<rparr>]\<rparr>\<rparr>)"
  by (simp add: delete_post_def delete_BlogPost_def sample_state_def sample_store_def)

text \<open>
  C3 as stated fails: a plain view of \<^verbatim>\<open>/post/999\<close> and the administrator's request for
  \<^verbatim>\<open>/edit-post/999\<close>, with no post 999 stored, both raise \<^verbatim>\<open>NoResultFound\<close>, and the response
  status is 500, not 404.
\<close>

theorem missing_post_not_404:
  "map p_id (blog_posts (db (sample_state None))) = [1, 2]
   \<and> fst (show_post sample_env GET 999 (sample_state None)) = Inl NoResultFound
   \<and> status_code (fst (show_post sample_env GET 999 (sample_state None))) = 500
   \<and> status_code (fst (show_post sample_env GET 999 (sample_state None))) \<noteq> 404
   \<and> fst (admin_only (edit_post sample_env GET) 999 (sample_state (Some 1))) = Inl NoResultFound
   \<and> status_code (fst (admin_only (edit_post sample_env GET) 999 (sample_state (Some 1)))) \<noteq> 404"
proof -
  have "show_post sample_env GET 999 (sample_state None) = (Inl NoResultFound, sample_state None)"
    by (simp add: show_post_def Let_def validate_on_submit_def GET_def sample_state_def
        sample_store_def)
  moreover have "admin_only (edit_post sample_env GET) 999 (sample_state (Some 1)) =
                   (Inl NoResultFound, sample_state (Some 1))"
    by (simp add: admin_only_def current_user_sample_1 edit_post_def)
       (simp add: sample_state_def sample_store_def)
  moreover have "map p_id (blog_posts (db (sample_state None))) = [1, 2]"
    by (simp add: sample_state_def sample_store_def)
  ultimately show ?thesis
    by simp
qed

text \<open>
  C3, amended. When no stored post has the requested id, a request to \<^verbatim>\<open>show_post\<close> that is
  not a validated comment submission, and the administrator's request to \<^verbatim>\<open>edit_post\<close>,
  raise \<^verbatim>\<open>NoResultFound\<close> and change nothing. The exception is not an \<^verbatim>\<open>abort(404)\<close>: nothing
  catches it, and the response status is 500.
\<close>

theorem missing_post_NoResultFound:
  assumes "\<not> list_ex (\<lambda>p. p_id p = post_id) (blog_posts (db s))"
  shows "(\<not> validate_on_submit (CommentForm e) r (make_form (CommentForm e) r [])
            \<longrightarrow> show_post e r post_id s = (Inl NoResultFound, s))
         \<and> ((\<exists>u. current_user s = Inr (LoggedIn u) \<and> u_id u = 1)
            \<longrightarrow> admin_only (edit_post e r) post_id s = (Inl NoResultFound, s))
         \<and> status_code (Inl NoResultFound) = 500"
proof -
  have none: "filter (\<lambda>p. p_id p = post_id) (blog_posts (db s)) = []"
    using assms by (rule filter_no_match)
  have edit: "edit_post e r post_id s = (Inl NoResultFound, s)"
    by (simp add: edit_post_def none)
  have "admin_only (edit_post e r) post_id s = (Inl NoResultFound, s)"
    if "\<exists>u. current_user s = Inr (LoggedIn u) \<and> u_id u = 1"
    using that edit by (auto simp: admin_only_def)
  moreover have "show_post e r post_id s = (Inl NoResultFound, s)"
    if "\<not> validate_on_submit (CommentForm e) r (make_form (CommentForm e) r [])"
    using that by (simp add: show_post_def Let_def none)
  ultimately show ?thesis
    by simp
qed

theorem missing_post_NoResultFound_witness:
  "show_post sample_env GET 999 (sample_state (Some 1)) = (Inl NoResultFound, sample_state (Some 1))
   \<and> admin_only (edit_post sample_env GET) 999 (sample_state (Some 1)) =
       (Inl NoResultFound, sample_state (Some 1))"
proof -
  have "\<not> list_ex (\<lambda>p. p_id p = 999) (blog_posts (db (sample_state (Some 1))))"
    by (simp add: sample_state_def sample_store_def)
  moreover have "\<not> validate_on_submit (CommentForm sample_env) GET
                     (make_form (CommentForm sample_env) GET [])"
    by (simp add: validate_on_submit_def GET_def)
  moreover have "\<exists>u. current_user (sample_state (Some 1)) = Inr (LoggedIn u) \<and> u_id u = 1"
    by (rule exI, rule conjI, rule current_user_sample_1) simp
  ultimately show ?thesis
    using missing_post_NoResultFound [of 999 "sample_state (Some 1)" sample_env GET]
    by blast
qed

text \<open>
  C5 as stated fails for a submission that does not validate: an anonymous visitor posts
  the comment form of post 1 with an empty comment. \<^verbatim>\<open>validate_on_submit\<close> is false, so the
  handler goes on to line 165 and renders \<^verbatim>\<open>post.html\<close> (status 200); it does not redirect
  to the login page.
\<close>

theorem show_post_anonymous_empty_comment:
  "current_user (sample_state None) = Inr AnonymousUser
   \<and> show_post sample_env (POST [(''comment'', '''')]) 1 (sample_state None) =
       (Inr (render_template ''post.html''
               [post_kw \<lparr>p_id = 1, p_author_id = Some 1, p_title = ''First'', p_subtitle = ''one'',
                         p_date = ''May 01, 2024'', p_body = ''text'',
                         p_img_url = ''https://x.com/1.png''\<rparr>,
                form_kw [(''comment'', '''')]]),
        sample_state None)
   \<and> status_code (fst (show_post sample_env (POST [(''comment'', '''')]) 1 (sample_state None))) =
       200"
proof -
  have "show_post sample_env (POST [(''comment'', '''')]) 1 (sample_state None) =
       (Inr (render_template ''post.html''
               [post_kw \<lparr>p_id = 1, p_author_id = Some 1, p_title = ''First'', p_subtitle = ''one'',
                         p_date = ''May 01, 2024'', p_body = ''text'',
                         p_img_url = ''https://x.com/1.png''\<rparr>,
                form_kw [(''comment'', '''')]]),
        sample_state None)"
    by (simp add: show_post_def Let_def make_form_def CommentForm_def validate_on_submit_def
        validate_def lookup_def POST_def sample_defs sample_state_def sample_store_def)
  then show ?thesis
    using current_user_sample_None by simp
qed

text \<open>
  C5, amended. A request to \<^verbatim>\<open>show_post\<close> in an anonymous session leaves the database as it
  was, so no comment row is added; when it is a validated comment submission, the handler
  queues the login prompt and redirects to the login page.
\<close>

theorem show_post_anonymous:
  assumes "current_user s = Inr AnonymousUser"
  shows "db (snd (show_post e r post_id s)) = db s
         \<and> comments (db (snd (show_post e r post_id s))) = comments (db s)
         \<and> (validate_on_submit (CommentForm e) r (make_form (CommentForm e) r [])
            \<longrightarrow> show_post e r post_id s =
                  (Inr (redirect ''login'' []),
                   flash ''Please Login or Register to Submit your Comment!'' s)
                \<and> status_code (fst (show_post e r post_id s)) = 302)"
  using assms by (auto simp: show_post_def Let_def flash_def split: sum.splits)

theorem show_post_anonymous_witness:
  "show_post sample_env (POST [(''comment'', ''hello'')]) 1 (sample_state None) =
     (Inr (redirect ''login'' []),
      flash ''Please Login or Register to Submit your Comment!'' (sample_state None))
   \<and> comments (db (snd (show_post sample_env (POST [(''comment'', ''hello'')]) 1
                          (sample_state None)))) = comments sample_store"
proof -
  have "validate_on_submit (CommentForm sample_env) (POST [(''comment'', ''hello'')])
          (make_form (CommentForm sample_env) (POST [(''comment'', ''hello'')]) [])"
    by (simp add: validate_on_submit_def validate_def make_form_def CommentForm_def lookup_def
        POST_def sample_defs)
  then show ?thesis
    using show_post_anonymous [OF current_user_sample_None, of sample_env
        "POST [(''comment'', ''hello'')]" 1]
    by (simp add: sample_state_def flash_def)
qed

section \<open>Registration and login\<close>

lemma db_flash [simp]: "db (flash message s) = db s"
  by (simp add: flash_def)

lemma session_user_id_flash [simp]: "session_user_id (flash message s) = session_user_id s"
  by (simp add: flash_def)

lemma db_sample_state [simp]: "db (sample_state uid) = sample_store"
  by (simp add: sample_state_def)

text \<open>
  C4. A validated registration whose email is already that of a stored user: the commit
  raises \<^verbatim>\<open>IntegrityError\<close>, which \<^verbatim>\<open>register\<close> catches; it queues the "email taken" message and
  redirects to the registration page. The database is as before (in particular the users
  table has no new row) and nobody is logged in by the attempt.
\<close>

theorem register_email_taken:
  assumes "validate_on_submit (RegisterForm e) r (make_form (RegisterForm e) r [])"
    and "list_ex (\<lambda>u. u_email u = lookup (make_form (RegisterForm e) r []) ''email'')
           (users (db s))"
  shows "register e r s =
           (Inr (redirect ''register'' []),
            flash ''The Email you have entered has been taken, try to use a different Email!'' s)
         \<and> db (snd (register e r s)) = db s
         \<and> users (db (snd (register e r s))) = users (db s)
         \<and> session_user_id (snd (register e r s)) = session_user_id s"
  using assms by (simp add: register_def Let_def add_User_def)

theorem register_email_taken_witness:
  "register sample_env
     (POST [(''email'', ''a@x.com''), (''password'', ''longenough''), (''name'', ''Z'')])
     (sample_state None) =
     (Inr (redirect ''register'' []),
      flash ''The Email you have entered has been taken, try to use a different Email!''
        (sample_state None))
   \<and> users (db (snd (register sample_env
        (POST [(''email'', ''a@x.com''), (''password'', ''longenough''), (''name'', ''Z'')])
        (sample_state None)))) = users sample_store"
proof -
  let ?r = "POST [(''email'', ''a@x.com''), (''password'', ''longenough''), (''name'', ''Z'')]"
  have form: "make_form (RegisterForm sample_env) ?r [] =
                [(''email'', ''a@x.com''), (''password'', ''longenough''), (''name'', ''Z'')]"
    by (simp add: make_form_def RegisterForm_def POST_def)
  have valid: "validate_on_submit (RegisterForm sample_env) ?r
                 (make_form (RegisterForm sample_env) ?r [])"
    unfolding form
    by (simp add: validate_on_submit_def validate_def RegisterForm_def lookup_def POST_def
        sample_defs Length_min_def)
  have taken: "list_ex (\<lambda>u. u_email u = lookup (make_form (RegisterForm sample_env) ?r []) ''email'')
                 (users (db (sample_state None)))"
    unfolding form by (simp add: lookup_def sample_store_def)
  show ?thesis
    using register_email_taken [OF valid taken] by simp
qed

text \<open>
  C7 as stated fails for a submission that does not validate: the email is the
  administrator's, the password \<open>short\<close> does not verify against the stored hash, and it
  has fewer than the eight characters \<^verbatim>\<open>LoginForm\<close> asks for. \<^verbatim>\<open>login\<close> renders \<^verbatim>\<open>login.html\<close> again
  and queues no message.
\<close>

theorem login_short_wrong_password:
  "map u_email (users (db (sample_state None))) = [''a@x.com'', ''b@x.com'']
   \<and> map u_password (users (db (sample_state None))) =
       [''pbkdf2:sha256$s1$hgfedcba'', ''pbkdf2:sha256$s2$87654321'']
   \<and> \<not> check_password_hash sample_env ''pbkdf2:sha256$s1$hgfedcba'' ''short''
   \<and> login sample_env (POST [(''email'', ''a@x.com''), (''password'', ''short'')])
         (sample_state None) =
       (Inr (render_template ''login.html''
               [form_kw [(''email'', ''a@x.com''), (''password'', ''short'')]]),
        sample_state None)
   \<and> flashes (snd (login sample_env (POST [(''email'', ''a@x.com''), (''password'', ''short'')])
         (sample_state None))) = []"
proof -
  have "login sample_env (POST [(''email'', ''a@x.com''), (''password'', ''short'')])
         (sample_state None) =
       (Inr (render_template ''login.html''
               [form_kw [(''email'', ''a@x.com''), (''password'', ''short'')]]),
        sample_state None)"
    by (simp add: login_def Let_def make_form_def LoginForm_def validate_on_submit_def
        validate_def lookup_def POST_def sample_defs Length_min_def)
  moreover have "\<not> check_password_hash sample_env ''pbkdf2:sha256$s1$hgfedcba'' ''short''"
    by (simp add: check_password_hash_def split_pwhash_def sample_defs)
  moreover have "map u_email (users (db (sample_state None))) = [''a@x.com'', ''b@x.com'']"
    "map u_password (users (db (sample_state None))) =
       [''pbkdf2:sha256$s1$hgfedcba'', ''pbkdf2:sha256$s2$87654321'']"
    by (simp_all add: sample_store_def)
  ultimately show ?thesis
    by (simp add: sample_state_def)
qed

text \<open>
  C7, amended. A validated login whose email selects a stored user and whose password does not
  verify against that user's stored hash: \<^verbatim>\<open>login\<close> queues the "wrong password" message and
  redirects to the login page. \<^verbatim>\<open>login_user\<close> is not called: the session holds the same
  user id as before, and an anonymous session is still anonymous.
\<close>

theorem login_wrong_password:
  assumes "validate_on_submit (LoginForm e) r (make_form (LoginForm e) r [])"
    and "scalar_one (filter (\<lambda>u. u_email u = lookup (make_form (LoginForm e) r []) ''email'')
           (users (db s))) = Inr user"
    and "\<not> check_password_hash e (u_password user)
             (lookup (make_form (LoginForm e) r []) ''password'')"
  shows "login e r s =
           (Inr (redirect ''login'' []),
            flash ''Sorry, Wrong Password, Try to use a different Password!'' s)
         \<and> session_user_id (snd (login e r s)) = session_user_id s
         \<and> db (snd (login e r s)) = db s
         \<and> (current_user s = Inr AnonymousUser
            \<longrightarrow> current_user (snd (login e r s)) = Inr AnonymousUser)"
proof -
  have "login e r s =
           (Inr (redirect ''login'' []),
            flash ''Sorry, Wrong Password, Try to use a different Password!'' s)"
    using assms by (simp add: login_def Let_def)
  then show ?thesis
    by simp
qed

theorem login_wrong_password_witness:
  "login sample_env (POST [(''email'', ''a@x.com''), (''password'', ''longenough'')])
     (sample_state None) =
     (Inr (redirect ''login'' []),
      flash ''Sorry, Wrong Password, Try to use a different Password!'' (sample_state None))
   \<and> current_user (snd (login sample_env
        (POST [(''email'', ''a@x.com''), (''password'', ''longenough'')])
        (sample_state None))) = Inr AnonymousUser"
proof -
  let ?r = "POST [(''email'', ''a@x.com''), (''password'', ''longenough'')]"
  let ?admin = "\<lparr>u_id = 1, u_email = ''a@x.com'', u_password = ''pbkdf2:sha256$s1$hgfedcba'', u_name = ''A''\<rparr>"
  have form: "make_form (LoginForm sample_env) ?r [] =
                [(''email'', ''a@x.com''), (''password'', ''longenough'')]"
    by (simp add: make_form_def LoginForm_def POST_def)
  have valid: "validate_on_submit (LoginForm sample_env) ?r (make_form (LoginForm sample_env) ?r [])"
    unfolding form
    by (simp add: validate_on_submit_def validate_def LoginForm_def lookup_def POST_def
        sample_defs Length_min_def)
  have found: "scalar_one (filter (\<lambda>u. u_email u =
                   lookup (make_form (LoginForm sample_env) ?r []) ''email'')
                 (users (db (sample_state None)))) = Inr ?admin"
    unfolding form by (simp add: lookup_def sample_store_def)
  have wrong: "\<not> check_password_hash sample_env (u_password ?admin)
                   (lookup (make_form (LoginForm sample_env) ?r []) ''password'')"
    unfolding form
    by (simp add: lookup_def sample_defs check_password_hash_def split_pwhash_def)
  show ?thesis
    using login_wrong_password [OF valid found wrong] current_user_sample_None by simp
qed

section \<open>The contact form\<close>

text \<open>The valid contact submission used in the worked instances, and its bound form.\<close>

lemma make_form_contact_sample:
  "make_form (CreateContactForm e)
     (POST [(''name'', ''Z''), (''email'', ''z@x.com''), (''phone'', ''1''), (''message'', ''hi'')]) [] =
     [(''name'', ''Z''), (''email'', ''z@x.com''), (''phone'', ''1''), (''message'', ''hi'')]"
  by (simp add: make_form_def CreateContactForm_def POST_def)

lemma validate_on_submit_contact_sample:
  "validate_on_submit (CreateContactForm (sample_env\<lparr>smtp_exchange := x\<rparr>))
     (POST [(''name'', ''Z''), (''email'', ''z@x.com''), (''phone'', ''1''), (''message'', ''hi'')])
     [(''name'', ''Z''), (''email'', ''z@x.com''), (''phone'', ''1''), (''message'', ''hi'')]"
  by (simp add: validate_on_submit_def validate_def CreateContactForm_def lookup_def POST_def
      sample_defs)

text \<open>
  C8. For a validated contact submission: when the mail exchange raises
  \<^verbatim>\<open>SMTPAuthenticationError\<close>, \<^verbatim>\<open>contact\<close> renders the contact page with the heading
  "Successfully Send Your Message" (status 200); when it raises anything else, the
  exception leaves the handler as it is.
\<close>

theorem contact_mail_failure:
  assumes "validate_on_submit (CreateContactForm e) r (make_form (CreateContactForm e) r [])"
    and "form = make_form (CreateContactForm e) r []"
    and "smtp_exchange e (contact_message (lookup form ''name'') (lookup form ''email'')
           (lookup form ''phone'') (lookup form ''message'')) = Some x"
  shows "(x = SMTPAuthenticationError
            \<longrightarrow> contact e r s =
                  (Inr (render_template ''contact.html''
                          [form_kw form, h1_kw ''Successfully Send Your Message'']), s)
                \<and> status_code (fst (contact e r s)) = 200)
         \<and> (x \<noteq> SMTPAuthenticationError \<longrightarrow> contact e r s = (Inl x, s))"
  using assms by (simp add: contact_def Let_def)

theorem contact_mail_failure_witness:
  "contact (sample_env\<lparr>smtp_exchange := (\<lambda>m. Some SMTPAuthenticationError)\<rparr>)
     (POST [(''name'', ''Z''), (''email'', ''z@x.com''), (''phone'', ''1''), (''message'', ''hi'')])
     (sample_state None) =
     (Inr (render_template ''contact.html''
             [form_kw [(''name'', ''Z''), (''email'', ''z@x.com''), (''phone'', ''1''),
                       (''message'', ''hi'')],
              h1_kw ''Successfully Send Your Message'']), sample_state None)
   \<and> contact (sample_env\<lparr>smtp_exchange := (\<lambda>m. Some SMTPException)\<rparr>)
     (POST [(''name'', ''Z''), (''email'', ''z@x.com''), (''phone'', ''1''), (''message'', ''hi'')])
     (sample_state None) = (Inl SMTPException, sample_state None)"
proof -
  let ?r = "POST [(''name'', ''Z''), (''email'', ''z@x.com''), (''phone'', ''1''),
                  (''message'', ''hi'')]"
  let ?form = "[(''name'', ''Z''), (''email'', ''z@x.com''), (''phone'', ''1''),
                (''message'', ''hi'')]"
  let ?auth = "sample_env\<lparr>smtp_exchange := (\<lambda>m. Some SMTPAuthenticationError)\<rparr>"
  let ?other = "sample_env\<lparr>smtp_exchange := (\<lambda>m. Some SMTPException)\<rparr>"
  have "contact ?auth ?r (sample_state None) =
          (Inr (render_template ''contact.html''
                  [form_kw ?form, h1_kw ''Successfully Send Your Message'']), sample_state None)"
    using contact_mail_failure [of ?auth ?r ?form SMTPAuthenticationError "sample_state None"]
      validate_on_submit_contact_sample
    by (simp add: make_form_contact_sample)
  moreover have "contact ?other ?r (sample_state None) = (Inl SMTPException, sample_state None)"
    using contact_mail_failure [of ?other ?r ?form SMTPException "sample_state None"]
      validate_on_submit_contact_sample
    by (simp add: make_form_contact_sample)
  ultimately show ?thesis
    by simp
qed

text \<open>
  C9. For a validated contact submission whose mail exchange completes without raising,
  \<^verbatim>\<open>contact\<close> reaches the end of its body and returns \<^verbatim>\<open>None\<close>, which the framework answers with
  status 500. \<^verbatim>\<open>contact\<close> returns a rendered page exactly when the request is not a validated
  submission or the mail exchange raises \<^verbatim>\<open>SMTPAuthenticationError\<close>.
\<close>

theorem contact_returns_None:
  assumes "form = make_form (CreateContactForm e) r []"
    and "sent = smtp_exchange e (contact_message (lookup form ''name'') (lookup form ''email'')
           (lookup form ''phone'') (lookup form ''message''))"
  shows "(validate_on_submit (CreateContactForm e) r form \<and> sent = None
            \<longrightarrow> contact e r s = (Inr returns_None, s)
                \<and> status_code (fst (contact e r s)) = 500)
         \<and> ((\<exists>template kwargs. fst (contact e r s) = Inr (render_template template kwargs))
            \<longleftrightarrow> (\<not> validate_on_submit (CreateContactForm e) r form
                 \<or> sent = Some SMTPAuthenticationError))"
  using assms by (auto simp: contact_def Let_def split: option.splits)

theorem contact_returns_None_witness:
  "contact sample_env
     (POST [(''name'', ''Z''), (''email'', ''z@x.com''), (''phone'', ''1''), (''message'', ''hi'')])
     (sample_state None) = (Inr returns_None, sample_state None)
   \<and> status_code (fst (contact sample_env
        (POST [(''name'', ''Z''), (''email'', ''z@x.com''), (''phone'', ''1''), (''message'', ''hi'')])
        (sample_state None))) = 500
   \<and> (\<exists>template kwargs. fst (contact sample_env GET (sample_state None)) =
         Inr (render_template template kwargs))"
proof -
  let ?r = "POST [(''name'', ''Z''), (''email'', ''z@x.com''), (''phone'', ''1''),
                  (''message'', ''hi'')]"
  let ?form = "[(''name'', ''Z''), (''email'', ''z@x.com''), (''phone'', ''1''),
                (''message'', ''hi'')]"
  have valid: "validate_on_submit (CreateContactForm sample_env) ?r ?form"
    using validate_on_submit_contact_sample [of "smtp_exchange sample_env"] by simp
  have sent: "smtp_exchange sample_env m = None" for m
    by (simp add: sample_defs)
  have "contact sample_env ?r (sample_state None) = (Inr returns_None, sample_state None)
        \<and> status_code (fst (contact sample_env ?r (sample_state None))) = 500"
    using contact_returns_None [of ?form sample_env ?r None "sample_state None"] valid sent
    by (simp add: make_form_contact_sample)
  moreover have "\<not> validate_on_submit (CreateContactForm sample_env) GET
                     (make_form (CreateContactForm sample_env) GET [])"
    by (simp add: validate_on_submit_def GET_def)
  then have "\<exists>template kwargs. fst (contact sample_env GET (sample_state None)) =
               Inr (render_template template kwargs)"
    using contact_returns_None [of "make_form (CreateContactForm sample_env) GET []" sample_env
        GET _ "sample_state None"]
    by blast
  ultimately show ?thesis
    by blast
qed

section \<open>Editing a post\<close>

lemma scalar_one_Inr: "scalar_one xs = Inr x \<Longrightarrow> xs = [x]"
  by (cases xs rule: scalar_one.cases) simp_all

lemma filter_singleton_holds:
  assumes "filter P xs = [x]"
  shows "P x"
proof -
  have "x \<in> set (filter P xs)"
    by (simp add: assms)
  then show ?thesis
    by simp
qed

text \<open>The UPDATE touches the row of the loaded post and no other row or table.\<close>

lemma update_BlogPost_frame:
  assumes "update_BlogPost d p title subtitle img_url body = Inr d'"
  shows "users d' = users d \<and> comments d' = comments d
         \<and> blog_posts d' =
             map (\<lambda>q. if p_id q = p_id p
                       then q\<lparr>p_title := title, p_subtitle := subtitle, p_img_url := img_url,
                              p_body := body\<rparr>
                       else q) (blog_posts d)"
  using assms by (auto simp: update_BlogPost_def split: if_splits)

lemma update_BlogPost_refused:
  "list_ex (\<lambda>q. p_id q \<noteq> p_id p \<and> p_title q = title) (blog_posts d) \<Longrightarrow>
   update_BlogPost d p title subtitle img_url body = Inl IntegrityError"
  by (simp add: update_BlogPost_def)

lemma update_BlogPost_accepted:
  "\<not> list_ex (\<lambda>q. p_id q \<noteq> p_id p \<and> p_title q = title) (blog_posts d) \<Longrightarrow>
   \<exists>d'. update_BlogPost d p title subtitle img_url body = Inr d'"
  by (simp add: update_BlogPost_def)

text \<open>
  C6 as stated fails: the administrator submits a valid edit of post 2 whose title is the
  title of post 1. The commit is refused and post 2 keeps its title.
\<close>

theorem edit_post_title_taken:
  "validate_on_submit (CreatePostForm sample_env)
     (POST [(''title'', ''First''), (''subtitle'', ''s''), (''img_url'', ''https://x.com/3.png''), (''body'', ''b'')])
     [(''title'', ''First''), (''subtitle'', ''s''), (''img_url'', ''https://x.com/3.png''), (''body'', ''b'')]
   \<and> admin_only (edit_post sample_env
        (POST [(''title'', ''First''), (''subtitle'', ''s''), (''img_url'', ''https://x.com/3.png''), (''body'', ''b'')]))
        2 (sample_state (Some 1)) = (Inl IntegrityError, sample_state (Some 1))
   \<and> map p_title (blog_posts (db (sample_state (Some 1)))) = [''First'', ''Second'']"
proof -
  let ?r = "POST [(''title'', ''First''), (''subtitle'', ''s''), (''img_url'', ''https://x.com/3.png''),
                  (''body'', ''b'')]"
  let ?form = "[(''title'', ''First''), (''subtitle'', ''s''), (''img_url'', ''https://x.com/3.png''),
                (''body'', ''b'')]"
  have valid: "validate_on_submit (CreatePostForm sample_env) ?r ?form"
    by (simp add: validate_on_submit_def validate_def CreatePostForm_def lookup_def POST_def
        sample_defs)
  have form: "make_form (CreatePostForm sample_env) ?r kwargs = ?form" for kwargs
    by (simp add: make_form_def CreatePostForm_def POST_def)
  have "edit_post sample_env ?r 2 (sample_state (Some 1)) =
          (Inl IntegrityError, sample_state (Some 1))"
    by (simp add: edit_post_def sample_store_def form valid update_BlogPost_def lookup_def)
  then have "admin_only (edit_post sample_env ?r) 2 (sample_state (Some 1)) =
          (Inl IntegrityError, sample_state (Some 1))"
    by (simp add: admin_only_def current_user_sample_1)
  moreover have "map p_title (blog_posts (db (sample_state (Some 1)))) = [''First'', ''Second'']"
    by (simp add: sample_store_def)
  ultimately show ?thesis
    using valid by simp
qed

text \<open>
  C6, amended. The administrator submits a validated edit of a stored post. In every
  case the users, the comments, the session and every other post are as before, and
  each post keeps its id, date and author id. When no other post has the submitted
  title, the post's row becomes the old row with exactly \<^verbatim>\<open>title\<close>, \<^verbatim>\<open>subtitle\<close>, \<^verbatim>\<open>img_url\<close> and
  \<^verbatim>\<open>body\<close> overwritten by the form's data, and the handler redirects to the post's view. When
  another post has the submitted title, the commit is refused and the database is unchanged.
\<close>

theorem edit_post_frame:
  assumes "current_user s = Inr (LoggedIn u)" and "u_id u = 1"
    and "scalar_one (filter (\<lambda>p. p_id p = post_id) (blog_posts (db s))) = Inr post"
    and "edit_form = make_form (CreatePostForm e) r
           [(''title'', p_title post), (''subtitle'', p_subtitle post),
            (''img_url'', p_img_url post), (''body'', p_body post)]"
    and "validate_on_submit (CreatePostForm e) r edit_form"
    and "s' = snd (admin_only (edit_post e r) post_id s)"
    and "edited = post\<lparr>p_title := lookup edit_form ''title'',
                       p_subtitle := lookup edit_form ''subtitle'',
                       p_img_url := lookup edit_form ''img_url'',
                       p_body := lookup edit_form ''body''\<rparr>"
  shows "users (db s') = users (db s) \<and> comments (db s') = comments (db s)
         \<and> session_user_id s' = session_user_id s
         \<and> list_all2 (\<lambda>q q'. p_id q' = p_id q \<and> p_date q' = p_date q \<and>
                              p_author_id q' = p_author_id q \<and> (p_id q \<noteq> post_id \<longrightarrow> q' = q))
              (blog_posts (db s)) (blog_posts (db s'))
         \<and> p_id edited = post_id \<and> p_date edited = p_date post
         \<and> p_author_id edited = p_author_id post
         \<and> (\<not> list_ex (\<lambda>q. p_id q \<noteq> post_id \<and> p_title q = lookup edit_form ''title'')
                 (blog_posts (db s))
            \<longrightarrow> fst (admin_only (edit_post e r) post_id s) =
                  Inr (redirect ''show_post'' [(''post_id'', post_id)])
                \<and> blog_posts (db s') =
                    map (\<lambda>q. if p_id q = post_id then edited else q) (blog_posts (db s))
                \<and> scalar_one (filter (\<lambda>p. p_id p = post_id) (blog_posts (db s'))) = Inr edited)
         \<and> (list_ex (\<lambda>q. p_id q \<noteq> post_id \<and> p_title q = lookup edit_form ''title'')
               (blog_posts (db s))
            \<longrightarrow> db s' = db s)"
proof -
  let ?posts = "blog_posts (db s)"
  let ?taken = "list_ex (\<lambda>q. p_id q \<noteq> post_id \<and> p_title q = lookup edit_form ''title'') ?posts"
  let ?upd = "update_BlogPost (db s) post (lookup edit_form ''title'')
                (lookup edit_form ''subtitle'') (lookup edit_form ''img_url'')
                (lookup edit_form ''body'')"
  have only: "filter (\<lambda>p. p_id p = post_id) ?posts = [post]"
    using assms(3) by (rule scalar_one_Inr)
  then have pid: "p_id post = post_id"
    by (rule filter_singleton_holds)
  have run: "admin_only (edit_post e r) post_id s = edit_post e r post_id s"
    using assms(1,2) by (rule admin_only_admin) (rule edit_post_no_AttributeError)
  have body: "edit_post e r post_id s =
                (case ?upd of
                   Inl x \<Rightarrow> (Inl x, s)
                 | Inr d \<Rightarrow> (Inr (redirect ''show_post'' [(''post_id'', p_id post)]), s\<lparr>db := d\<rparr>))"
    using assms(3,5) by (simp add: edit_post_def Let_def assms(4))
  have rows: "q = post" if "q \<in> set ?posts" "p_id q = post_id" for q
  proof -
    from that have "q \<in> set (filter (\<lambda>p. p_id p = post_id) ?posts)" by simp
    then show ?thesis unfolding only by simp
  qed
  have edited_fields: "p_id edited = post_id" "p_date edited = p_date post"
    "p_author_id edited = p_author_id post"
    by (simp_all add: assms(7) pid)
  show ?thesis
  proof (cases ?taken)
    case True
    then have "?upd = Inl IntegrityError"
      by (simp add: update_BlogPost_refused pid)
    then have "s' = s"
      by (simp add: assms(6) run body)
    then show ?thesis
      using True edited_fields by (simp add: list_all2_same)
  next
    case False
    then have "\<not> list_ex (\<lambda>q. p_id q \<noteq> p_id post \<and> p_title q = lookup edit_form ''title'') ?posts"
      by (simp add: pid)
    then obtain d where d: "?upd = Inr d"
      using update_BlogPost_accepted by blast
    have s': "s' = s\<lparr>db := d\<rparr>"
      by (simp add: assms(6) run body d)
    have out: "fst (admin_only (edit_post e r) post_id s) =
                 Inr (redirect ''show_post'' [(''post_id'', post_id)])"
      by (simp add: run body d pid)
    have frame: "users d = users (db s)" "comments d = comments (db s)"
      using update_BlogPost_frame [OF d] by simp_all
    have "blog_posts d =
            map (\<lambda>q. if p_id q = p_id post
                      then q\<lparr>p_title := lookup edit_form ''title'',
                             p_subtitle := lookup edit_form ''subtitle'',
                             p_img_url := lookup edit_form ''img_url'',
                             p_body := lookup edit_form ''body''\<rparr>
                      else q) ?posts"
      using update_BlogPost_frame [OF d] by simp
    also have "\<dots> = map (\<lambda>q. if p_id q = post_id then edited else q) ?posts"
      by (rule map_cong [OF refl]) (auto simp: pid assms(7) dest: rows)
    finally have posts': "blog_posts d = map (\<lambda>q. if p_id q = post_id then edited else q) ?posts" .
    have "filter (\<lambda>p. p_id p = post_id) (blog_posts d) =
            map (\<lambda>q. if p_id q = post_id then edited else q) (filter (\<lambda>p. p_id p = post_id) ?posts)"
      unfolding posts' filter_map
      by (rule arg_cong [where f = "map _"], rule filter_cong [OF refl])
         (simp add: edited_fields)
    then have one: "scalar_one (filter (\<lambda>p. p_id p = post_id) (blog_posts d)) = Inr edited"
      by (simp add: only pid)
    have all2: "list_all2 (\<lambda>q q'. p_id q' = p_id q \<and> p_date q' = p_date q \<and>
                              p_author_id q' = p_author_id q \<and> (p_id q \<noteq> post_id \<longrightarrow> q' = q))
              ?posts (blog_posts d)"
      unfolding posts' list_all2_map2
      by (rule list_all2_all_nthI) (auto simp: edited_fields dest!: nth_mem rows)
    show ?thesis
      using False by (simp add: s' frame out posts' [symmetric] one all2 edited_fields)
  qed
qed
theorem edit_post_frame_witness:
  "blog_posts (db (snd (admin_only (edit_post sample_env
       (POST [(''title'', ''New''), (''subtitle'', ''s''), (''img_url'', ''https://x.com/3.png''), (''body'', ''b'')]))
       2 (sample_state (Some 1))))) =
     [\<lparr>p_id = 1, p_author_id = Some 1, p_title = ''First'', p_subtitle = ''one'',
       p_date = ''May 01, 2024'', p_body = ''text'', p_img_url = ''https://x.com/1.png''\<rparr>,
      \<lparr>p_id = 2, p_author_id = Some 1, p_title = ''New'', p_subtitle = ''s'',
       p_date = ''May 02, 2024'', p_body = ''b'', p_img_url = ''https://x.com/3.png''\<rparr>]
   \<and> users (db (snd (admin_only (edit_post sample_env
       (POST [(''title'', ''New''), (''subtitle'', ''s''), (''img_url'', ''https://x.com/3.png''), (''body'', ''b'')]))
       2 (sample_state (Some 1))))) = users sample_store
   \<and> comments (db (snd (admin_only (edit_post sample_env
       (POST [(''title'', ''New''), (''subtitle'', ''s''), (''img_url'', ''https://x.com/3.png''), (''body'', ''b'')]))
       2 (sample_state (Some 1))))) = comments sample_store
   \<and> db (snd (admin_only (edit_post sample_env
       (POST [(''title'', ''First''), (''subtitle'', ''s''), (''img_url'', ''https://x.com/3.png''), (''body'', ''b'')]))
       2 (sample_state (Some 1)))) = sample_store"
proof -
  let ?new = "POST [(''title'', ''New''), (''subtitle'', ''s''), (''img_url'', ''https://x.com/3.png''),
                    (''body'', ''b'')]"
  let ?first = "POST [(''title'', ''First''), (''subtitle'', ''s''), (''img_url'', ''https://x.com/3.png''),
                      (''body'', ''b'')]"
  let ?new_form = "[(''title'', ''New''), (''subtitle'', ''s''), (''img_url'', ''https://x.com/3.png''),
                    (''body'', ''b'')]"
  let ?first_form = "[(''title'', ''First''), (''subtitle'', ''s''), (''img_url'', ''https://x.com/3.png''),
                      (''body'', ''b'')]"
  let ?post = "\<lparr>p_id = 2, p_author_id = Some 1, p_title = ''Second'', p_subtitle = ''two'',
                p_date = ''May 02, 2024'', p_body = ''more'', p_img_url = ''https://x.com/2.png''\<rparr>"
  let ?s = "sample_state (Some 1)"
  have admin: "u_id \<lparr>u_id = 1, u_email = ''a@x.com'', u_password = ''pbkdf2:sha256$s1$hgfedcba'', u_name = ''A''\<rparr> = 1"
    by simp
  have found: "scalar_one (filter (\<lambda>p. p_id p = 2) (blog_posts (db ?s))) = Inr ?post"
    by (simp add: sample_store_def)
  have new_form: "?new_form = make_form (CreatePostForm sample_env) ?new kwargs" for kwargs
    by (simp add: make_form_def CreatePostForm_def POST_def)
  have first_form: "?first_form = make_form (CreatePostForm sample_env) ?first kwargs" for kwargs
    by (simp add: make_form_def CreatePostForm_def POST_def)
  have new_valid: "validate_on_submit (CreatePostForm sample_env) ?new ?new_form"
    by (simp add: validate_on_submit_def validate_def CreatePostForm_def lookup_def POST_def
        sample_defs)
  have first_valid: "validate_on_submit (CreatePostForm sample_env) ?first ?first_form"
    by (simp add: validate_on_submit_def validate_def CreatePostForm_def lookup_def POST_def
        sample_defs)
  have free: "\<not> list_ex (\<lambda>q. p_id q \<noteq> 2 \<and> p_title q = lookup ?new_form ''title'')
                  (blog_posts (db ?s))"
    by (simp add: sample_store_def lookup_def)
  have taken: "list_ex (\<lambda>q. p_id q \<noteq> 2 \<and> p_title q = lookup ?first_form ''title'')
                 (blog_posts (db ?s))"
    by (simp add: sample_store_def lookup_def)
  note new = edit_post_frame [OF current_user_sample_1 admin found new_form new_valid refl refl]
  note first = edit_post_frame [OF current_user_sample_1 admin found first_form first_valid refl refl]
  have "blog_posts (db (snd (admin_only (edit_post sample_env ?new) 2 ?s))) =
          map (\<lambda>q. if p_id q = 2
                    then ?post\<lparr>p_title := lookup ?new_form ''title'',
                               p_subtitle := lookup ?new_form ''subtitle'',
                               p_img_url := lookup ?new_form ''img_url'',
                               p_body := lookup ?new_form ''body''\<rparr>
                    else q) (blog_posts (db ?s))"
    using new free by blast
  then have "blog_posts (db (snd (admin_only (edit_post sample_env ?new) 2 ?s))) =
     [\<lparr>p_id = 1, p_author_id = Some 1, p_title = ''First'', p_subtitle = ''one'',
       p_date = ''May 01, 2024'', p_body = ''text'', p_img_url = ''https://x.com/1.png''\<rparr>,
      \<lparr>p_id = 2, p_author_id = Some 1, p_title = ''New'', p_subtitle = ''s'',
       p_date = ''May 02, 2024'', p_body = ''b'', p_img_url = ''https://x.com/3.png''\<rparr>]"
    by (simp add: sample_store_def lookup_def)
  moreover have "users (db (snd (admin_only (edit_post sample_env ?new) 2 ?s))) = users sample_store"
    using new by simp
  moreover have "comments (db (snd (admin_only (edit_post sample_env ?new) 2 ?s))) =
                   comments sample_store"
    using new by simp
  moreover have "db (snd (admin_only (edit_post sample_env ?first) 2 ?s)) = sample_store"
    using first taken by simp
  ultimately show ?thesis
    by blast
qed

section \<open>What registration stores\<close>

text \<open>
  A validated registration with a fresh email appends one user whose \<^verbatim>\<open>password\<close> column is
  the result of \<^verbatim>\<open>generate_password_hash\<close> on the posted password, logs that user in and
  redirects to the listing.
\<close>

lemma register_stores_hash:
  assumes "form = make_form (RegisterForm e) r []"
    and "validate_on_submit (RegisterForm e) r form"
    and "\<not> list_ex (\<lambda>u. u_email u = lookup form ''email'') (users (db s))"
    and "new_user = \<lparr>u_id = next_id (map u_id (users (db s))), u_email = lookup form ''email'',
                      u_password = generate_password_hash e (lookup form ''password''),
                      u_name = lookup form ''name''\<rparr>"
  shows "register e r s =
           (Inr (redirect ''get_all_posts'' []),
            login_user new_user (s\<lparr>db := (db s)\<lparr>users := users (db s) @ [new_user]\<rparr>\<rparr>))"
  using assms by (simp add: register_def Let_def add_User_def)

section \<open>Password hashes\<close>










end
